theory Spec2Isabelle
  imports Main
begin

section \<open>NavigationHelper (src/core/input_handler.py)\<close>

text \<open>
  The cursor object of \<^verbatim>\<open>class NavigationHelper\<close>: the item list and the current
  index. Python integers are unbounded, so the index is an \<open>int\<close>; the items are strings.
  Every method mutates \<^verbatim>\<open>self\<close> and returns a string, so every method of the model
  returns the string together with the object after the call.

  The constructor and \<^verbatim>\<open>update_items\<close> keep the caller's list object itself. The model
  is of the helper's own methods: no method changes the list in place, and a caller that
  does so afterwards is outside it.
\<close>

record navigation_helper =
  items :: "string list"
  current_index :: int

text \<open>\<^verbatim>\<open>__init__(self, items)\<close>: stores the list and starts at index 0.\<close>

definition NavigationHelper :: "string list \<Rightarrow> navigation_helper" where
  "NavigationHelper xs = \<lparr>items = xs, current_index = 0\<rparr>"

text \<open>
  \<^verbatim>\<open>get_current\<close>: the item under the cursor, or the empty string when the list is empty
  or the index is out of range. The read \<open>items ! nat i\<close> happens only under the guard.
\<close>

definition get_current :: "navigation_helper \<Rightarrow> string" where
  "get_current nh =
     (if items nh \<noteq> [] \<and> 0 \<le> current_index nh \<and> current_index nh < int (length (items nh))
      then items nh ! nat (current_index nh)
      else [])"

definition get_current_index :: "navigation_helper \<Rightarrow> int" where
  "get_current_index nh = current_index nh"

text \<open>
  \<^verbatim>\<open>next\<close> and \<^verbatim>\<open>previous\<close>: Python's \<^verbatim>\<open>%\<close> with a positive right operand is the
  floor remainder, which is \<open>mod\<close> on \<open>int\<close>.
\<close>

definition next_item :: "navigation_helper \<Rightarrow> string \<times> navigation_helper" where
  "next_item nh =
     (if items nh \<noteq> []
      then (let nh' = nh\<lparr>current_index := (current_index nh + 1) mod int (length (items nh))\<rparr>
            in (get_current nh', nh'))
      else ([], nh))"

definition previous :: "navigation_helper \<Rightarrow> string \<times> navigation_helper" where
  "previous nh =
     (if items nh \<noteq> []
      then (let nh' = nh\<lparr>current_index := (current_index nh - 1) mod int (length (items nh))\<rparr>
            in (get_current nh', nh'))
      else ([], nh))"

definition first :: "navigation_helper \<Rightarrow> string \<times> navigation_helper" where
  "first nh = (let nh' = nh\<lparr>current_index := 0\<rparr> in (get_current nh', nh'))"

definition last_item :: "navigation_helper \<Rightarrow> string \<times> navigation_helper" where
  "last_item nh =
     (if items nh \<noteq> []
      then (let nh' = nh\<lparr>current_index := int (length (items nh)) - 1\<rparr>
            in (get_current nh', nh'))
      else ([], nh))"

definition set_index :: "int \<Rightarrow> navigation_helper \<Rightarrow> string \<times> navigation_helper" where
  "set_index i nh =
     (if items nh \<noteq> [] \<and> 0 \<le> i \<and> i < int (length (items nh))
      then (let nh' = nh\<lparr>current_index := i\<rparr> in (get_current nh', nh'))
      else ([], nh))"

text \<open>\<^verbatim>\<open>update_items\<close> returns nothing.\<close>

definition update_items :: "string list \<Rightarrow> navigation_helper \<Rightarrow> navigation_helper" where
  "update_items xs nh = nh\<lparr>items := xs, current_index := 0\<rparr>"

text \<open>
  The calls a client can make on the object, and a run of such calls from a freshly
  constructed helper. A call yields the returned string (\<open>None\<close> for
  \<^verbatim>\<open>update_items\<close>, which returns nothing) and the object after the call.
\<close>

datatype nav_op =
    Next | Previous | First | Last | GetCurrent | SetIndex int | UpdateItems "string list"

fun nav_step :: "nav_op \<Rightarrow> navigation_helper \<Rightarrow> string option \<times> navigation_helper" where
  "nav_step Next nh = (Some (fst (next_item nh)), snd (next_item nh))"
| "nav_step Previous nh = (Some (fst (previous nh)), snd (previous nh))"
| "nav_step First nh = (Some (fst (first nh)), snd (first nh))"
| "nav_step Last nh = (Some (fst (last_item nh)), snd (last_item nh))"
| "nav_step GetCurrent nh = (Some (get_current nh), nh)"
| "nav_step (SetIndex i) nh = (Some (fst (set_index i nh)), snd (set_index i nh))"
| "nav_step (UpdateItems xs) nh = (None, update_items xs nh)"

fun nav_run :: "nav_op list \<Rightarrow> navigation_helper \<Rightarrow> navigation_helper" where
  "nav_run [] nh = nh"
| "nav_run (c # cs) nh = nav_run cs (snd (nav_step c nh))"

text \<open>The invariant of the data model: the index is 0 on an empty list and in range otherwise.\<close>

definition nav_inv :: "navigation_helper \<Rightarrow> bool" where
  "nav_inv nh =
     (if items nh = [] then current_index nh = 0
      else 0 \<le> current_index nh \<and> current_index nh < int (length (items nh)))"

section \<open>Strings, exceptions and the console\<close>

text \<open>
  A Python \<^verbatim>\<open>str\<close> is modelled by the bytes of its UTF-8 encoding, a \<open>string\<close>. The
  encoding is one-to-one, so equal strings are equal byte lists (dictionary keys), and the
  byte of \<^verbatim>\<open>+\<close> occurs in an encoded string only where the character \<^verbatim>\<open>+\<close> does, so
  splitting at \<^verbatim>\<open>+\<close> and concatenating are the same on the bytes.

  \<^verbatim>\<open>str.lower\<close> is a builtin: it folds every cased character of Unicode, by tables that
  are no part of this repository. Every definition that calls it takes it as its first
  argument \<open>lower\<close>, and every theorem about such a definition holds for every function
  \<open>lower\<close>, so for \<^verbatim>\<open>str.lower\<close>.
\<close>

text \<open>
  What \<^verbatim>\<open>str.lower\<close> does on a string of ASCII characters: each of the letters \<^verbatim>\<open>A\<close> to
  \<^verbatim>\<open>Z\<close> becomes its small letter and every other character stays. On a string with another
  character this is not \<^verbatim>\<open>str.lower\<close>; it serves to evaluate the definitions at ASCII
  strings.
\<close>

definition lower_ascii_char :: "char \<Rightarrow> char" where
  "lower_ascii_char c =
     (case map_of (zip ''ABCDEFGHIJKLMNOPQRSTUVWXYZ'' ''abcdefghijklmnopqrstuvwxyz'') c of
        Some l \<Rightarrow> l
      | None \<Rightarrow> c)"

definition lower_ascii :: "string \<Rightarrow> string" where
  "lower_ascii s = map lower_ascii_char s"

text \<open>
  \<^verbatim>\<open>s.split(sep)\<close> with a one-character separator: the pieces between the occurrences
  of the separator, so a string with \<open>n\<close> separators has \<open>n + 1\<close> pieces and the empty
  string has the one piece \<^verbatim>\<open>''\<close>.
\<close>

fun split_on :: "char \<Rightarrow> string \<Rightarrow> string list" where
  "split_on sep [] = [[]]"
| "split_on sep (c # cs) =
     (if c = sep then [] # split_on sep cs
      else (case split_on sep cs of
              p # ps \<Rightarrow> (c # p) # ps
            | [] \<Rightarrow> [[c]]))"

text \<open>
  \<^verbatim>\<open>sep.join(pieces)\<close>, the inverse of \<^verbatim>\<open>split\<close>; the program does not call it, the
  properties of \<open>split_on\<close> are stated with it.
\<close>

fun join_with :: "char \<Rightarrow> string list \<Rightarrow> string" where
  "join_with sep [] = []"
| "join_with sep [p] = p"
| "join_with sep (p # q # ps) = p @ sep # join_with sep (q # ps)"

text \<open>
  A raised exception: an instance of a class derived from \<^verbatim>\<open>Exception\<close>, with the name of
  its class and what formatting it (\<^verbatim>\<open>{e}\<close> in an f-string, that is \<^verbatim>\<open>str(e)\<close>) does, or
  an instance of another \<^verbatim>\<open>BaseException\<close> (\<^verbatim>\<open>SystemExit\<close>, \<^verbatim>\<open>KeyboardInterrupt\<close>,
  \<^verbatim>\<open>GeneratorExit\<close>), which \<^verbatim>\<open>except Exception\<close> lets through. Formatting an exception runs
  its \<^verbatim>\<open>__str__\<close>, which returns a string or raises in its turn; it is taken to change
  nothing else.
\<close>

datatype raised = Exception string str_outcome | BaseException string
  and str_outcome = Str string | Str_raises raised

text \<open>
  \<^verbatim>\<open>print(line)\<close> writes to the console and returns, or the write raises (a closed or
  broken stream, a character the console's encoding lacks): \<open>None\<close> when the line is
  written, the exception otherwise.

  \<^verbatim>\<open>handle_key\<close> and \<^verbatim>\<open>load_config\<close> print before they are done, and their models take
  the console. In \<^verbatim>\<open>bind\<close>, \<^verbatim>\<open>unbind\<close>, \<^verbatim>\<open>clear_bindings\<close>, \<^verbatim>\<open>map_key\<close>, \<^verbatim>\<open>unmap_key\<close>,
  \<^verbatim>\<open>create_preset\<close> and \<^verbatim>\<open>set_preset\<close> the \<^verbatim>\<open>print\<close> comes after the last assignment, and
  the line is built from strings only: their models give the object after the call, which
  is the same whether or not the \<^verbatim>\<open>print\<close> returns.
\<close>

type_synonym console = "string \<Rightarrow> raised option"

text \<open>A Python string literal in single quotes; \<open>CHR 0x27\<close> is the single quote.\<close>

definition quoted :: "string \<Rightarrow> string" where
  "quoted s = [CHR 0x27] @ s @ [CHR 0x27]"

section \<open>InputHandler (src/core/input_handler.py)\<close>

text \<open>
  \<^verbatim>\<open>parse_key_combo\<close> reads no field of the handler. It returns a pair of a Python list
  (the modifiers) and a string (the key).
\<close>

definition parse_key_combo :: "(string \<Rightarrow> string) \<Rightarrow> string \<Rightarrow> string list \<times> string" where
  "parse_key_combo lower key_string =
     (let parts = split_on (CHR ''+'') (lower key_string)
      in if length parts = 1 then ([], parts ! 0)
         else (butlast parts, last parts))"

text \<open>
  What calling a Python callable can do: return, or raise. Either way the callable may
  have changed the program state before it stopped, so both outcomes carry the state it
  leaves.
\<close>

datatype 's outcome = Return 's | Raise raised 's

text \<open>
  The handler's fields that the modelled methods read or write: the dispatch table
  \<^verbatim>\<open>hotkeys\<close> and \<^verbatim>\<open>navigation_mode\<close>. (\<^verbatim>\<open>key_bindings\<close> and \<^verbatim>\<open>hotkeys_file\<close> are
  written by the constructor and \<^verbatim>\<open>load_hotkeys\<close> only and read by no method.)

  A callback is a zero-argument Python callable: a closure that may read and write any
  object it holds, the handler included. HOL has no such values, so the table stores
  callables of a type \<open>'c\<close>, and a function \<open>call\<close> gives what calling one does to
  the program state: the handler together with the rest of the program's state \<open>'w\<close>.
\<close>

record 'c input_handler =
  hotkeys :: "string \<rightharpoonup> 'c"
  navigation_mode :: string

type_synonym ('c, 'w) program = "'c input_handler \<times> 'w"

type_synonym ('c, 'w) calling = "'c \<Rightarrow> ('c, 'w) program \<Rightarrow> ('c, 'w) program outcome"

text \<open>\<^verbatim>\<open>__init__\<close> without a hotkeys file.\<close>

definition InputHandler :: "'c input_handler" where
  "InputHandler = \<lparr>hotkeys = Map.empty, navigation_mode = ''menu''\<rparr>"

definition bind ::
  "(string \<Rightarrow> string) \<Rightarrow> string \<Rightarrow> string \<Rightarrow> 'c \<Rightarrow> 'c input_handler \<Rightarrow> 'c input_handler" where
  "bind lower key action callback ih = ih\<lparr>hotkeys := (hotkeys ih)(lower key \<mapsto> callback)\<rparr>"

definition unbind :: "(string \<Rightarrow> string) \<Rightarrow> string \<Rightarrow> 'c input_handler \<Rightarrow> 'c input_handler" where
  "unbind lower key ih =
     (if lower key \<in> dom (hotkeys ih) then ih\<lparr>hotkeys := (hotkeys ih)(lower key := None)\<rparr>
      else ih)"

definition clear_bindings :: "'c input_handler \<Rightarrow> 'c input_handler" where
  "clear_bindings ih = ih\<lparr>hotkeys := Map.empty\<rparr>"

text \<open>A screen's run of \<^verbatim>\<open>bind\<close> calls, in order.\<close>

fun bind_all ::
  "(string \<Rightarrow> string) \<Rightarrow> (string \<times> string \<times> 'c) list \<Rightarrow> 'c input_handler \<Rightarrow> 'c input_handler" where
  "bind_all lower [] ih = ih"
| "bind_all lower ((key, action, callback) # bs) ih =
     bind_all lower bs (bind lower key action callback ih)"

text \<open>
  The result of \<^verbatim>\<open>handle_key\<close>: it returns a boolean, having printed some lines, or an
  exception leaves it. Both carry the program state after the call.
\<close>

datatype 's key_result = Returns bool "string list" 's | Propagates raised 's

text \<open>The line of the \<^verbatim>\<open>except\<close> branch, with \<open>e\<close> the string that \<^verbatim>\<open>{e}\<close> gives.\<close>

definition error_line :: "string \<Rightarrow> string \<Rightarrow> string" where
  "error_line key e = ''[InputHandler] Error handling key '' @ quoted key @ '': '' @ e"

text \<open>
  \<^verbatim>\<open>handle_key\<close>. The \<^verbatim>\<open>except Exception\<close> branch builds its line and prints it before
  it returns \<^verbatim>\<open>False\<close>: when formatting the exception raises, or the \<^verbatim>\<open>print\<close> does,
  that exception leaves \<^verbatim>\<open>handle_key\<close>.
\<close>

definition handle_key ::
  "(string \<Rightarrow> string) \<Rightarrow> ('c, 'w) calling \<Rightarrow> console \<Rightarrow> string \<Rightarrow> ('c, 'w) program
     \<Rightarrow> ('c, 'w) program key_result" where
  "handle_key lower call console key0 s =
     (let key = lower key0 in
      case hotkeys (fst s) key of
        Some callback \<Rightarrow>
          (case call callback s of
             Return s' \<Rightarrow> Returns True [] s'
           | Raise (Exception cls (Str e)) s' \<Rightarrow>
               (case console (error_line key e) of
                  None \<Rightarrow> Returns False [error_line key e] s'
                | Some r \<Rightarrow> Propagates r s')
           | Raise (Exception cls (Str_raises r)) s' \<Rightarrow> Propagates r s'
           | Raise (BaseException cls) s' \<Rightarrow> Propagates (BaseException cls) s')
      | None \<Rightarrow> Returns False [] s)"

section \<open>KeyboardMapper (src/core/keyboard_mapper.py)\<close>

text \<open>
  \<^verbatim>\<open>self.mappings\<close> is a dictionary from preset names to dictionaries, and the inner
  dictionaries are mutable objects: \<^verbatim>\<open>self.mappings[p][k] = a\<close>, \<^verbatim>\<open>del\<close> and
  \<^verbatim>\<open>update\<close> change an object in place, and whoever else holds that object sees the
  change. The model keeps this: an inner dictionary lives in a store of objects, a
  reference is its position there, and \<^verbatim>\<open>mappings\<close> holds references. Creating a
  dictionary (a literal, \<^verbatim>\<open>{}\<close>, \<^verbatim>\<open>.copy()\<close>, or the objects \<^verbatim>\<open>json.load\<close> builds)
  appends a new object to the store.
\<close>

type_synonym dict = "string \<rightharpoonup> string"

type_synonym ref = nat

record keyboard_mapper =
  mappings :: "string \<rightharpoonup> ref"
  store :: "dict list"
  current_preset :: string

text \<open>A new dictionary object with the given contents: its reference and the new store.\<close>

definition new_dict :: "dict \<Rightarrow> keyboard_mapper \<Rightarrow> ref \<times> keyboard_mapper" where
  "new_dict d km = (length (store km), km\<lparr>store := store km @ [d]\<rparr>)"

text \<open>\<^verbatim>\<open>self.mappings[name] = <new dictionary d>\<close>.\<close>

definition assign_new :: "string \<Rightarrow> dict \<Rightarrow> keyboard_mapper \<Rightarrow> keyboard_mapper" where
  "assign_new name d km =
     (let (r, km') = new_dict d km in km'\<lparr>mappings := (mappings km')(name \<mapsto> r)\<rparr>)"

text \<open>Writing the object at a reference in place.\<close>

definition write_dict :: "ref \<Rightarrow> dict \<Rightarrow> keyboard_mapper \<Rightarrow> keyboard_mapper" where
  "write_dict r d km = km\<lparr>store := (store km)[r := d]\<rparr>"

text \<open>
  \<^verbatim>\<open>preset or self.current_preset\<close>: Python's \<^verbatim>\<open>or\<close> takes the right operand when the
  left one is falsy, which for an optional string is \<^verbatim>\<open>None\<close> and the empty string.
\<close>

definition preset_or :: "string option \<Rightarrow> string \<Rightarrow> string" where
  "preset_or preset cur = (case preset of None \<Rightarrow> cur | Some p \<Rightarrow> if p = [] then cur else p)"

text \<open>The five dictionary literals of \<^verbatim>\<open>_init_default_mappings\<close> (no literal repeats a key).\<close>

definition default_literal :: "(string \<times> string) list" where
  "default_literal =
     [(''up'', ''navigate_up''), (''down'', ''navigate_down''), (''left'', ''navigate_left''),
      (''right'', ''navigate_right''), (''enter'', ''select''), (''escape'', ''back''),
      (''tab'', ''next_section''), (''shift+tab'', ''previous_section''), (''space'', ''toggle''),
      (''r'', ''read_current''), (''s'', ''save''), (''l'', ''load''), (''h'', ''help''),
      (''q'', ''quit''), (''m'', ''main_menu''), (''n'', ''toggle_narration''), (''f1'', ''help''),
      (''ctrl+s'', ''save''), (''ctrl+l'', ''load'')]"

definition screen_reader_literal :: "(string \<times> string) list" where
  "screen_reader_literal =
     [(''up'', ''navigate_up''), (''down'', ''navigate_down''), (''left'', ''navigate_left''),
      (''right'', ''navigate_right''), (''enter'', ''select''), (''escape'', ''back''),
      (''insert+r'', ''read_current''), (''insert+s'', ''stop_speech''),
      (''insert+h'', ''read_heading''), (''insert+t'', ''read_title''),
      (''ctrl+home'', ''first_item''), (''ctrl+end'', ''last_item'')]"

definition match_literal :: "(string \<times> string) list" where
  "match_literal =
     [(''space'', ''pause_match''), (''c'', ''read_commentary''), (''p'', ''read_possession''),
      (''t'', ''read_stats''), (''g'', ''read_last_goal''), (''e'', ''read_last_event''),
      (''f'', ''faster_commentary''), (''slower'', ''slower_commentary''),
      (''left'', ''previous_event''), (''right'', ''next_event''), (''escape'', ''back_to_menu'')]"

definition tactics_literal :: "(string \<times> string) list" where
  "tactics_literal =
     [(''up'', ''previous_player''), (''down'', ''next_player''), (''left'', ''previous_position''),
      (''right'', ''next_position''), (''enter'', ''select_player''), (''f'', ''change_formation''),
      (''r'', ''read_formation''), (''s'', ''substitute_menu''), (''i'', ''player_instructions''),
      (''escape'', ''back'')]"

definition inbox_literal :: "(string \<times> string) list" where
  "inbox_literal =
     [(''up'', ''previous_email''), (''down'', ''next_email''), (''enter'', ''open_email''),
      (''r'', ''read_email''), (''d'', ''delete_email''), (''a'', ''archive_email''),
      (''escape'', ''back'')]"

definition init_default_mappings :: "keyboard_mapper \<Rightarrow> keyboard_mapper" where
  "init_default_mappings km =
     assign_new ''inbox'' (map_of inbox_literal)
       (assign_new ''tactics'' (map_of tactics_literal)
         (assign_new ''match'' (map_of match_literal)
           (assign_new ''screen_reader'' (map_of screen_reader_literal)
             (assign_new ''default'' (map_of default_literal) km))))"

text \<open>
  The Python value that \<^verbatim>\<open>json.load\<close> builds: \<^verbatim>\<open>None\<close>, a \<^verbatim>\<open>bool\<close>, an \<^verbatim>\<open>int\<close>, a
  \<^verbatim>\<open>float\<close> (kept as its text; no method looks at it), a \<^verbatim>\<open>str\<close>, a \<^verbatim>\<open>list\<close>, or a
  \<^verbatim>\<open>dict\<close> with string keys, given by its items in the order of the file.
\<close>

datatype json =
    JNull | JBool bool | JInt int | JFloat string | JString string | JArray "json list"
  | JObject "(string \<times> json) list"

text \<open>The name of the value's Python type, as error messages print it.\<close>

fun type_name :: "json \<Rightarrow> string" where
  "type_name JNull = ''NoneType''"
| "type_name (JBool b) = ''bool''"
| "type_name (JInt i) = ''int''"
| "type_name (JFloat f) = ''float''"
| "type_name (JString s) = ''str''"
| "type_name (JArray xs) = ''list''"
| "type_name (JObject kvs) = ''dict''"

text \<open>
  A loaded value that is a dictionary of strings, as a \<open>dict\<close>: the value of the
  configuration format for one preset. A Python dictionary has each key once.
\<close>

fun the_string :: "json \<Rightarrow> string option" where
  "the_string (JString s) = Some s"
| "the_string v = None"

fun str_items :: "(string \<times> json) list \<Rightarrow> (string \<times> string) list option" where
  "str_items [] = Some []"
| "str_items ((k, v) # kvs) =
     (case the_string v of
        None \<Rightarrow> None
      | Some s \<Rightarrow> (case str_items kvs of None \<Rightarrow> None | Some rest \<Rightarrow> Some ((k, s) # rest)))"

fun as_dict :: "json \<Rightarrow> dict option" where
  "as_dict (JObject kvs) = map_option map_of (str_items kvs)"
| "as_dict v = None"

text \<open>
  \<^verbatim>\<open>d.update(v)\<close> for a dictionary of strings \<open>d\<close> and a loaded value \<open>v\<close> (CPython's
  messages):
  \<^item> a dictionary is merged in, its values winning; when one of its values is not a
    string the object stops being a dictionary of strings, which is beyond this model;
  \<^item> \<^verbatim>\<open>None\<close>, a \<^verbatim>\<open>bool\<close> and a number are not iterable: \<^verbatim>\<open>TypeError\<close>;
  \<^item> the empty string and the empty list have no element: nothing changes;
  \<^item> the first element of a string that is not empty is a string of length 1:
    \<^verbatim>\<open>ValueError\<close>, nothing changed;
  \<^item> a list whose first element is \<^verbatim>\<open>None\<close>, a \<^verbatim>\<open>bool\<close> or a number: \<^verbatim>\<open>TypeError\<close>,
    nothing changed; a list with another first element is read as a sequence of pairs,
    which is beyond this model.
\<close>

datatype update_result = Updated dict | Update_raises raised | Update_beyond_model

definition not_iterable :: "json \<Rightarrow> raised" where
  "not_iterable v = Exception ''TypeError'' (Str (quoted (type_name v) @ '' object is not iterable''))"

definition element_0_length_1 :: raised where
  "element_0_length_1 =
     Exception ''ValueError''
       (Str ''dictionary update sequence element #0 has length 1; 2 is required'')"

definition element_0_no_sequence :: raised where
  "element_0_no_sequence =
     Exception ''TypeError''
       (Str ''cannot convert dictionary update sequence element #0 to a sequence'')"

fun update :: "dict \<Rightarrow> json \<Rightarrow> update_result" where
  "update d (JObject kvs) =
     (case as_dict (JObject kvs) of Some d' \<Rightarrow> Updated (d ++ d') | None \<Rightarrow> Update_beyond_model)"
| "update d (JString s) = (if s = [] then Updated d else Update_raises element_0_length_1)"
| "update d (JArray []) = Updated d"
| "update d (JArray (JNull # xs)) = Update_raises element_0_no_sequence"
| "update d (JArray (JBool b # xs)) = Update_raises element_0_no_sequence"
| "update d (JArray (JInt i # xs)) = Update_raises element_0_no_sequence"
| "update d (JArray (JFloat f # xs)) = Update_raises element_0_no_sequence"
| "update d (JArray (x # xs)) = Update_beyond_model"
| "update d v = Update_raises (not_iterable v)"

text \<open>
  The loop over \<^verbatim>\<open>loaded_mappings.items()\<close>. It ends, or an exception of \<^verbatim>\<open>update\<close>
  leaves it with the presets before it already merged. A new preset name gets the loaded
  object itself; when that is not a dictionary of strings, \<^verbatim>\<open>self.mappings\<close> stops being
  a dictionary of dictionaries of strings, which is beyond this model.
\<close>

datatype merge_result =
    Merged keyboard_mapper | Merge_raises raised keyboard_mapper | Merge_beyond_model

fun merge_loaded :: "(string \<times> json) list \<Rightarrow> keyboard_mapper \<Rightarrow> merge_result" where
  "merge_loaded [] km = Merged km"
| "merge_loaded ((preset, loaded) # rest) km =
     (case mappings km preset of
        Some r \<Rightarrow>
          (case update (store km ! r) loaded of
             Updated d \<Rightarrow> merge_loaded rest (write_dict r d km)
           | Update_raises e \<Rightarrow> Merge_raises e km
           | Update_beyond_model \<Rightarrow> Merge_beyond_model)
      | None \<Rightarrow>
          (case as_dict loaded of
             Some d \<Rightarrow> merge_loaded rest (assign_new preset d km)
           | None \<Rightarrow> Merge_beyond_model))"

text \<open>
  What \<^verbatim>\<open>with open(filepath, 'r') as f: json.load(f)\<close> gives before the loop: an exception
  (\<^verbatim>\<open>FileNotFoundError\<close>, \<^verbatim>\<open>PermissionError\<close> or another \<^verbatim>\<open>OSError\<close> from opening,
  \<^verbatim>\<open>UnicodeDecodeError\<close> from reading bytes that are no text, \<^verbatim>\<open>JSONDecodeError\<close> from
  text that is no JSON), or the loaded value.
\<close>

datatype config_source = Raises raised | Loads json

text \<open>The three lines that \<^verbatim>\<open>load_config\<close> prints.\<close>

definition loaded_line :: "string \<Rightarrow> string" where
  "loaded_line filepath = ''[KeyboardMapper] Loaded configuration from '' @ filepath"

definition not_found_line :: "string \<Rightarrow> string" where
  "not_found_line filepath = ''[KeyboardMapper] Config file not found: '' @ filepath"

definition parse_error_line :: "string \<Rightarrow> string" where
  "parse_error_line e = ''[KeyboardMapper] Error parsing config file: '' @ e"

text \<open>
  The result of \<^verbatim>\<open>load_config\<close>: it returns, or an exception leaves it, both with the
  lines printed and the mapper as it is then; or the call went beyond this model.
\<close>

datatype load_result =
    Returned (printed: "string list") (mapper_after: keyboard_mapper)
  | Raised raised (printed: "string list") (mapper_after: keyboard_mapper)
  | Beyond_model

text \<open>
  The body of the \<^verbatim>\<open>try\<close>: opening and loading, \<^verbatim>\<open>.items()\<close> (which only a dictionary
  has: \<^verbatim>\<open>AttributeError\<close>), the loop, and the \<^verbatim>\<open>print\<close> after it.
\<close>

definition no_items :: "json \<Rightarrow> raised" where
  "no_items v =
     Exception ''AttributeError''
       (Str (quoted (type_name v) @ '' object has no attribute '' @ quoted ''items''))"

definition print_line :: "console \<Rightarrow> string \<Rightarrow> keyboard_mapper \<Rightarrow> load_result" where
  "print_line console line km =
     (case console line of None \<Rightarrow> Returned [line] km | Some r \<Rightarrow> Raised r [] km)"

definition try_body :: "console \<Rightarrow> string \<Rightarrow> config_source \<Rightarrow> keyboard_mapper \<Rightarrow> load_result" where
  "try_body console filepath src km =
     (case src of
        Raises r \<Rightarrow> Raised r [] km
      | Loads (JObject loaded_mappings) \<Rightarrow>
          (case merge_loaded loaded_mappings km of
             Merged km' \<Rightarrow> print_line console (loaded_line filepath) km'
           | Merge_raises r km' \<Rightarrow> Raised r [] km'
           | Merge_beyond_model \<Rightarrow> Beyond_model)
      | Loads v \<Rightarrow> Raised (no_items v) [] km)"

text \<open>
  \<^verbatim>\<open>load_config\<close>: the two \<^verbatim>\<open>except\<close> clauses, in their order, on what the body raises.
  Each prints one line; formatting \<^verbatim>\<open>{e}\<close> or the \<^verbatim>\<open>print\<close> may raise in its turn, and
  then that exception leaves \<^verbatim>\<open>load_config\<close>. Every other exception passes through.
  (A clause also catches the subclasses of its class; opening, loading and the loop raise
  no instance of a proper subclass of either, so the classes are told by their names.)
\<close>

definition load_config :: "console \<Rightarrow> string \<Rightarrow> config_source \<Rightarrow> keyboard_mapper \<Rightarrow> load_result" where
  "load_config console filepath src km =
     (case try_body console filepath src km of
        Raised (Exception cls str) ls km' \<Rightarrow>
          (if cls = ''FileNotFoundError'' then print_line console (not_found_line filepath) km'
           else if cls = ''JSONDecodeError''
           then (case str of
                   Str e \<Rightarrow> print_line console (parse_error_line e) km'
                 | Str_raises r \<Rightarrow> Raised r [] km')
           else Raised (Exception cls str) ls km')
      | res \<Rightarrow> res)"

text \<open>
  \<^verbatim>\<open>__init__\<close>: \<^verbatim>\<open>KeyboardMapper()\<close> is the mapper with the defaults; with a configuration
  file the constructor goes on with \<^verbatim>\<open>load_config\<close>.
\<close>

definition KeyboardMapper :: keyboard_mapper where
  "KeyboardMapper =
     init_default_mappings \<lparr>mappings = Map.empty, store = [], current_preset = ''default''\<rparr>"

definition KeyboardMapper_from :: "console \<Rightarrow> string \<Rightarrow> config_source \<Rightarrow> load_result" where
  "KeyboardMapper_from console config_file src = load_config console config_file src KeyboardMapper"




definition set_preset :: "string \<Rightarrow> keyboard_mapper \<Rightarrow> bool \<times> keyboard_mapper" where
  "set_preset preset_name km =
     (if preset_name \<in> dom (mappings km) then (True, km\<lparr>current_preset := preset_name\<rparr>)
      else (False, km))"

definition get_action ::
  "(string \<Rightarrow> string) \<Rightarrow> string \<Rightarrow> string option \<Rightarrow> keyboard_mapper \<Rightarrow> string option" where
  "get_action lower key preset km =
     (case mappings km (preset_or preset (current_preset km)) of
        Some r \<Rightarrow> (store km ! r) (lower key)
      | None \<Rightarrow> None)"

definition map_key ::
  "(string \<Rightarrow> string) \<Rightarrow> string \<Rightarrow> string \<Rightarrow> string option \<Rightarrow> keyboard_mapper
     \<Rightarrow> keyboard_mapper" where
  "map_key lower key action preset0 km =
     (let preset = preset_or preset0 (current_preset km);
          km1 = (if preset \<notin> dom (mappings km) then assign_new preset Map.empty km else km)
      in case mappings km1 preset of
           Some r \<Rightarrow> write_dict r ((store km1 ! r)(lower key \<mapsto> action)) km1
         | None \<Rightarrow> km1)"

definition unmap_key ::
  "(string \<Rightarrow> string) \<Rightarrow> string \<Rightarrow> string option \<Rightarrow> keyboard_mapper \<Rightarrow> keyboard_mapper" where
  "unmap_key lower key preset0 km =
     (let preset = preset_or preset0 (current_preset km)
      in case mappings km preset of
           Some r \<Rightarrow>
             (if lower key \<in> dom (store km ! r)
              then write_dict r ((store km ! r)(lower key := None)) km
              else km)
         | None \<Rightarrow> km)"

text \<open>
  \<^verbatim>\<open>get_mappings\<close> returns a copy, that is the contents of the object at the time of the
  call: a value of type \<open>dict\<close>.
\<close>

definition get_mappings :: "string option \<Rightarrow> keyboard_mapper \<Rightarrow> dict" where
  "get_mappings preset km =
     (case mappings km (preset_or preset (current_preset km)) of
        Some r \<Rightarrow> store km ! r
      | None \<Rightarrow> Map.empty)"

text \<open>
  \<^verbatim>\<open>create_preset\<close>: \<^verbatim>\<open>base_preset and base_preset in self.mappings\<close> needs a base that
  is neither \<^verbatim>\<open>None\<close> nor the empty string. \<^verbatim>\<open>.copy()\<close> makes a new object with the
  contents of the base; the values are strings, which Python cannot change in place.
\<close>

definition create_preset :: "string \<Rightarrow> string option \<Rightarrow> keyboard_mapper \<Rightarrow> keyboard_mapper" where
  "create_preset name base_preset km =
     (case base_preset of
        Some b \<Rightarrow>
          (if b \<noteq> [] \<and> b \<in> dom (mappings km)
           then assign_new name (store km ! the (mappings km b)) km
           else assign_new name Map.empty km)
      | None \<Rightarrow> assign_new name Map.empty km)"

text \<open>
  \<^verbatim>\<open>self.mappings[name]\<close> read directly: the contents of the preset's table, \<open>None\<close>
  when there is no preset of that name.
\<close>

definition preset_table :: "keyboard_mapper \<Rightarrow> string \<Rightarrow> dict option" where
  "preset_table km name = map_option (\<lambda>r. store km ! r) (mappings km name)"

text \<open>The same with the default of \<^verbatim>\<open>self.mappings.get(preset, {})\<close>.\<close>

definition table_or_empty :: "keyboard_mapper \<Rightarrow> string \<Rightarrow> dict" where
  "table_or_empty km p = (case preset_table km p of Some t \<Rightarrow> t | None \<Rightarrow> Map.empty)"

text \<open>
  The state of the references that the methods keep: every reference in \<^verbatim>\<open>mappings\<close>
  is an object of the store, and two preset names never hold the same object.
\<close>

definition km_inv :: "keyboard_mapper \<Rightarrow> bool" where
  "km_inv km =
     ((\<forall>p r. mappings km p = Some r \<longrightarrow> r < length (store km)) \<and>
      (\<forall>p q r. mappings km p = Some r \<longrightarrow> mappings km q = Some r \<longrightarrow> p = q))"

text \<open>The calls that change one preset's table, and a run of them on the preset \<open>name\<close>.\<close>

datatype mutation = MapKey string string | UnmapKey string

fun mutate ::
  "(string \<Rightarrow> string) \<Rightarrow> string \<Rightarrow> mutation \<Rightarrow> keyboard_mapper \<Rightarrow> keyboard_mapper" where
  "mutate lower name (MapKey key action) km = map_key lower key action (Some name) km"
| "mutate lower name (UnmapKey key) km = unmap_key lower key (Some name) km"

fun mutate_all ::
  "(string \<Rightarrow> string) \<Rightarrow> string \<Rightarrow> mutation list \<Rightarrow> keyboard_mapper \<Rightarrow> keyboard_mapper" where
  "mutate_all lower name [] km = km"
| "mutate_all lower name (m # ms) km = mutate_all lower name ms (mutate lower name m km)"

section \<open>Properties of NavigationHelper\<close>

lemma nav_inv_init: "nav_inv (NavigationHelper xs)"
  by (cases xs) (simp_all add: nav_inv_def NavigationHelper_def)

lemma nav_inv_call: "nav_inv nh \<Longrightarrow> nav_inv (snd (nav_step c nh))"
  by (cases c)
     (auto simp: nav_inv_def next_item_def previous_def first_def last_item_def
                 set_index_def update_items_def Let_def)

lemma nav_inv_run: "nav_inv nh \<Longrightarrow> nav_inv (nav_run cs nh)"
  by (induction cs arbitrary: nh) (simp_all add: nav_inv_call)

lemmas nav_defs = NavigationHelper_def get_current_def next_item_def previous_def first_def last_item_def
  set_index_def update_items_def Let_def

text \<open>
  Claim C4. Every state that a run of calls (\<^verbatim>\<open>next\<close>, \<^verbatim>\<open>previous\<close>, \<^verbatim>\<open>first\<close>,
  \<^verbatim>\<open>last\<close>, \<^verbatim>\<open>get_current\<close>, \<^verbatim>\<open>set_index\<close>, \<^verbatim>\<open>update_items\<close>) reaches from a
  newly constructed helper has its index in range when the list is not empty; when the
  list is empty the index is 0 and every accessor returns the empty string.
\<close>

theorem navigation_index_invariant:
  "let nh = nav_run cs (NavigationHelper xs) in
     (items nh \<noteq> [] \<longrightarrow> 0 \<le> current_index nh \<and> current_index nh < int (length (items nh))) \<and>
     (items nh = [] \<longrightarrow>
        current_index nh = 0 \<and> get_current nh = [] \<and> fst (next_item nh) = [] \<and>
        fst (previous nh) = [] \<and> fst (first nh) = [] \<and> fst (last_item nh) = [] \<and>
        fst (set_index i nh) = [])"
proof -
  define nh where "nh = nav_run cs (NavigationHelper xs)"
  have inv: "nav_inv nh"
    unfolding nh_def by (rule nav_inv_run) (rule nav_inv_init)
  have "items nh \<noteq> [] \<longrightarrow> 0 \<le> current_index nh \<and> current_index nh < int (length (items nh))"
    using inv by (simp add: nav_inv_def)
  moreover have "items nh = [] \<longrightarrow> current_index nh = 0"
    using inv by (simp add: nav_inv_def)
  moreover have "items nh = [] \<longrightarrow>
      get_current nh = [] \<and> fst (next_item nh) = [] \<and> fst (previous nh) = [] \<and>
      fst (first nh) = [] \<and> fst (last_item nh) = [] \<and> fst (set_index i nh) = []"
    by (simp add: get_current_def next_item_def previous_def first_def last_item_def
                  set_index_def)
  ultimately show ?thesis
    unfolding nh_def [symmetric] Let_def by blast
qed

theorem navigation_index_invariant_witness:
  "current_index (nav_run [Next, Next, Previous, SetIndex 7, Last, Next]
                    (NavigationHelper [''a'', ''b'', ''c''])) = 0 \<and>
   items (nav_run [Last, UpdateItems []] (NavigationHelper [''a'', ''b''])) = [] \<and>
   current_index (nav_run [Last, UpdateItems []] (NavigationHelper [''a'', ''b''])) = 0 \<and>
   fst (next_item (nav_run [Last, UpdateItems []] (NavigationHelper [''a'', ''b'']))) = []"
  using navigation_index_invariant [of "[Next, Next, Previous, SetIndex 7, Last, Next]"
          "[''a'', ''b'', ''c'']" 0]
        navigation_index_invariant [of "[Last, UpdateItems []]" "[''a'', ''b'']" 0]
  by (simp add: nav_defs)

lemma next_index:
  "items nh \<noteq> [] \<Longrightarrow>
     snd (next_item nh) = nh\<lparr>current_index := (current_index nh + 1) mod int (length (items nh))\<rparr>"
  by (simp add: next_item_def Let_def)

lemma previous_index:
  "items nh \<noteq> [] \<Longrightarrow>
     snd (previous nh) = nh\<lparr>current_index := (current_index nh - 1) mod int (length (items nh))\<rparr>"
  by (simp add: previous_def Let_def)

lemma nav_run_append: "nav_run (as @ bs) nh = nav_run bs (nav_run as nh)"
  by (induction as arbitrary: nh) simp_all

lemma nav_run_snoc: "nav_run (replicate (Suc n) c) nh = snd (nav_step c (nav_run (replicate n c) nh))"
  using nav_run_append [of "replicate n c" "[c]" nh]
  by (simp add: replicate_append_same)

lemma run_next:
  "xs \<noteq> [] \<Longrightarrow>
     nav_run (replicate n Next) (NavigationHelper xs)
       = \<lparr>items = xs, current_index = int n mod int (length xs)\<rparr>"
proof (induction n)
  case 0
  then show ?case by (simp add: NavigationHelper_def)
next
  case (Suc n)
  have "(int n mod int (length xs) + 1) mod int (length xs) = (int n + 1) mod int (length xs)"
    by (rule mod_add_left_eq)
  then show ?case
    using Suc by (simp add: nav_run_snoc next_index add.commute del: replicate_Suc)
qed

lemma run_previous:
  "xs \<noteq> [] \<Longrightarrow>
     nav_run (replicate n Previous) (NavigationHelper xs)
       = \<lparr>items = xs, current_index = (- int n) mod int (length xs)\<rparr>"
proof (induction n)
  case 0
  then show ?case by (simp add: NavigationHelper_def)
next
  case (Suc n)
  have "((- int n) mod int (length xs) - 1) mod int (length xs) = (- int n - 1) mod int (length xs)"
    by (rule mod_diff_left_eq)
  moreover have "- int n - 1 = - 1 - int n"
    by simp
  ultimately show ?case
    using Suc by (simp add: nav_run_snoc previous_index del: replicate_Suc)
qed

lemma run_empty:
  "items nh = [] \<Longrightarrow> nav_run (replicate n Next) nh = nh \<and> nav_run (replicate n Previous) nh = nh"
  by (induction n) (simp_all add: next_item_def previous_def)

text \<open>
  Claim C5. From index 0 on a non-empty list, \<open>n\<close> calls of \<^verbatim>\<open>next\<close> leave the index
  at \<open>n mod |S|\<close> and \<open>n\<close> calls of \<^verbatim>\<open>previous\<close> leave it at \<open>(- n) mod |S|\<close>. On the
  empty list both return the empty string and the index stays 0.
\<close>

theorem next_previous_modular:
  "(xs \<noteq> [] \<longrightarrow>
      current_index (nav_run (replicate n Next) (NavigationHelper xs)) = int n mod int (length xs) \<and>
      current_index (nav_run (replicate n Previous) (NavigationHelper xs)) = (- int n) mod int (length xs)) \<and>
   fst (next_item (NavigationHelper [])) = [] \<and>
   fst (previous (NavigationHelper [])) = [] \<and>
   current_index (nav_run (replicate n Next) (NavigationHelper [])) = 0 \<and>
   current_index (nav_run (replicate n Previous) (NavigationHelper [])) = 0"
proof -
  have "current_index (nav_run (replicate n Next) (NavigationHelper xs)) = int n mod int (length xs)"
    if "xs \<noteq> []"
    using that run_next [of xs n] by simp
  moreover have "current_index (nav_run (replicate n Previous) (NavigationHelper xs)) = (- int n) mod int (length xs)"
    if "xs \<noteq> []"
    using that run_previous [of xs n] by simp
  moreover have "fst (next_item (NavigationHelper [])) = []" "fst (previous (NavigationHelper [])) = []"
    by (simp_all add: next_item_def previous_def NavigationHelper_def)
  moreover have "current_index (nav_run (replicate n Next) (NavigationHelper [])) = 0"
      "current_index (nav_run (replicate n Previous) (NavigationHelper [])) = 0"
    using run_empty [of "NavigationHelper []" n] by (simp_all add: NavigationHelper_def)
  ultimately show ?thesis by blast
qed

theorem next_previous_modular_witness:
  "current_index (nav_run (replicate 5 Next) (NavigationHelper [''a'', ''b'', ''c''])) = 2 \<and>
   current_index (nav_run (replicate 5 Previous) (NavigationHelper [''a'', ''b'', ''c''])) = 1"
  using next_previous_modular [of "[''a'', ''b'', ''c'']" 5] by simp

text \<open>
  Claim C6. \<^verbatim>\<open>set_index\<close> with an index outside \<open>[0, |S|)\<close> returns the empty string
  and changes neither the index nor the items; with an index inside, it sets the index
  and returns the item there. It never clamps.
\<close>

theorem set_index_validated:
  "(\<not> (0 \<le> i \<and> i < int (length (items nh))) \<longrightarrow> set_index i nh = ([], nh)) \<and>
   (0 \<le> i \<and> i < int (length (items nh)) \<longrightarrow>
      set_index i nh = (items nh ! nat i, nh\<lparr>current_index := i\<rparr>))"
  by (auto simp: set_index_def get_current_def Let_def)

theorem set_index_validated_witness:
  "set_index 3 \<lparr>items = [''a'', ''b'', ''c''], current_index = 1\<rparr>
     = ([], \<lparr>items = [''a'', ''b'', ''c''], current_index = 1\<rparr>) \<and>
   set_index (- 1) \<lparr>items = [''a'', ''b'', ''c''], current_index = 1\<rparr>
     = ([], \<lparr>items = [''a'', ''b'', ''c''], current_index = 1\<rparr>) \<and>
   set_index 2 \<lparr>items = [''a'', ''b'', ''c''], current_index = 1\<rparr>
     = (''c'', \<lparr>items = [''a'', ''b'', ''c''], current_index = 2\<rparr>)"
  using set_index_validated [of 3 "\<lparr>items = [''a'', ''b'', ''c''], current_index = 1\<rparr>"]
        set_index_validated [of "- 1" "\<lparr>items = [''a'', ''b'', ''c''], current_index = 1\<rparr>"]
        set_index_validated [of 2 "\<lparr>items = [''a'', ''b'', ''c''], current_index = 1\<rparr>"]
  by simp

text \<open>
  Claim C7. \<^verbatim>\<open>update_items\<close> replaces the list and sets the index to 0 whatever it was,
  so \<^verbatim>\<open>get_current_index\<close> is 0 right after.
\<close>

theorem update_items_resets_index:
  "items (update_items xs nh) = xs \<and> current_index (update_items xs nh) = 0 \<and>
   get_current_index (update_items xs nh) = 0"
  by (simp add: update_items_def get_current_index_def)

section \<open>Properties of key parsing\<close>

lemma split_on_not_Nil: "split_on sep s \<noteq> []"
  by (induction s) (auto split: list.splits)

lemma join_split_on: "join_with sep (split_on sep s) = s"
proof (induction s)
  case Nil
  then show ?case by simp
next
  case (Cons c cs)
  obtain p ps where ps: "split_on sep cs = p # ps"
    using split_on_not_Nil [of sep cs] by (cases "split_on sep cs") auto
  show ?case
  proof (cases "c = sep")
    case True
    then show ?thesis using Cons ps by simp
  next
    case False
    then show ?thesis using Cons ps by (cases ps) auto
  qed
qed

lemma split_on_no_sep: "p \<in> set (split_on sep s) \<Longrightarrow> sep \<notin> set p"
  by (induction s arbitrary: p) (auto split: if_splits list.splits)

lemma length_split_on: "length (split_on sep s) = Suc (count_list s sep)"
  by (induction s) (auto split: list.splits simp: split_on_not_Nil)

lemma split_on_single: "sep \<notin> set s \<Longrightarrow> split_on sep s = [s]"
  by (induction s) auto

text \<open>
  Claim C3, as the code has it. For every string and whatever \<^verbatim>\<open>str.lower\<close> makes of
  it, \<^verbatim>\<open>parse_key_combo\<close> splits the lower-cased string at every \<^verbatim>\<open>+\<close>: the pieces joined
  by \<^verbatim>\<open>+\<close> give the lower-cased string back, no piece holds a \<^verbatim>\<open>+\<close>, and there is one
  piece more than the lower-cased string has \<^verbatim>\<open>+\<close>. The key is the last piece and the
  modifiers are the Python list of all pieces before it, in the order given and with
  repeated pieces kept; a string with one piece gives the empty list and that piece.
\<close>

theorem parse_key_combo_tokens:
  "let parts = split_on (CHR ''+'') (lower s) in
     parts \<noteq> [] \<and>
     join_with (CHR ''+'') parts = lower s \<and>
     (\<forall>t \<in> set parts. CHR ''+'' \<notin> set t) \<and>
     length parts = Suc (count_list (lower s) (CHR ''+'')) \<and>
     parse_key_combo lower s = (butlast parts, last parts) \<and>
     (length parts = 1 \<longrightarrow> parse_key_combo lower s = ([], lower s))"
proof -
  define parts where "parts = split_on (CHR ''+'') (lower s)"
  have ne: "parts \<noteq> []"
    by (simp add: parts_def split_on_not_Nil)
  have j: "join_with (CHR ''+'') parts = lower s"
    by (simp add: parts_def join_split_on)
  have t: "\<forall>t \<in> set parts. CHR ''+'' \<notin> set t"
    by (simp add: parts_def split_on_no_sep)
  have l: "length parts = Suc (count_list (lower s) (CHR ''+''))"
    by (simp add: parts_def length_split_on)
  have one: "parts = [lower s]" if "length parts = 1"
  proof -
    from that obtain p where "parts = [p]"
      by (cases parts) auto
    with j show ?thesis by simp
  qed
  have p: "parse_key_combo lower s = (butlast parts, last parts)"
  proof (cases "length parts = 1")
    case True
    then show ?thesis using one by (simp add: parse_key_combo_def parts_def [symmetric])
  next
    case False
    then show ?thesis by (simp add: parse_key_combo_def parts_def [symmetric])
  qed
  have "length parts = 1 \<longrightarrow> parse_key_combo lower s = ([], lower s)"
    using one p by auto
  with ne j t l p show ?thesis
    unfolding parts_def [symmetric] Let_def by blast
qed

lemmas key_defs = parse_key_combo_def lower_ascii_def lower_ascii_char_def

theorem parse_key_combo_tokens_witness:
  "parse_key_combo lower_ascii ''Ctrl+Shift+S'' = ([''ctrl'', ''shift''], ''s'') \<and>
   parse_key_combo lower_ascii ''F1'' = ([], ''f1'')"
  using parse_key_combo_tokens [of lower_ascii "''Ctrl+Shift+S''"]
        parse_key_combo_tokens [of lower_ascii "''F1''"]
  by (simp add: key_defs)

text \<open>
  The modifiers are not a set: a repeated modifier stays twice in the result, and two
  combinations with the same modifiers in another order give results that are not equal.
  (The strings are ASCII, where \<open>lower_ascii\<close> is \<^verbatim>\<open>str.lower\<close>.)
\<close>

theorem parse_key_combo_counterexample:
  "fst (parse_key_combo lower_ascii ''ctrl+ctrl+s'') = [''ctrl'', ''ctrl''] \<and>
   \<not> distinct (fst (parse_key_combo lower_ascii ''ctrl+ctrl+s'')) \<and>
   set (fst (parse_key_combo lower_ascii ''ctrl+shift+s''))
     = set (fst (parse_key_combo lower_ascii ''shift+ctrl+s'')) \<and>
   snd (parse_key_combo lower_ascii ''ctrl+shift+s'')
     = snd (parse_key_combo lower_ascii ''shift+ctrl+s'') \<and>
   parse_key_combo lower_ascii ''ctrl+shift+s'' \<noteq> parse_key_combo lower_ascii ''shift+ctrl+s''"
  by (simp add: key_defs insert_commute)

section \<open>Properties of InputHandler\<close>

lemma hotkeys_bind: "hotkeys (bind lower k a c ih) = (hotkeys ih)(lower k \<mapsto> c)"
  by (simp add: bind_def)

lemma hotkeys_bind_all_other:
  "\<forall>b \<in> set bs. lower (fst b) \<noteq> key \<Longrightarrow> hotkeys (bind_all lower bs ih) key = hotkeys ih key"
  by (induction bs arbitrary: ih) (auto simp: hotkeys_bind)

lemma handle_key_bound_return:
  "hotkeys (fst s) (lower k) = Some cb \<Longrightarrow> call cb s = Return s'
     \<Longrightarrow> handle_key lower call console k s = Returns True [] s'"
  by (simp add: handle_key_def)

lemma handle_key_bound_exception:
  "hotkeys (fst s) (lower k) = Some cb \<Longrightarrow> call cb s = Raise (Exception cls (Str e)) s'
     \<Longrightarrow> console (error_line (lower k) e) = None
     \<Longrightarrow> handle_key lower call console k s = Returns False [error_line (lower k) e] s'"
  by (simp add: handle_key_def)

lemma handle_key_unbound:
  "hotkeys (fst s) (lower k) = None \<Longrightarrow> handle_key lower call console k s = Returns False [] s"
  by (simp add: handle_key_def)

text \<open>The exceptions that leave \<^verbatim>\<open>handle_key\<close>.\<close>

lemma handle_key_base_exception:
  "hotkeys (fst s) (lower k) = Some cb \<Longrightarrow> call cb s = Raise (BaseException cls) s'
     \<Longrightarrow> handle_key lower call console k s = Propagates (BaseException cls) s'"
  by (simp add: handle_key_def)

lemma handle_key_str_raises:
  "hotkeys (fst s) (lower k) = Some cb \<Longrightarrow> call cb s = Raise (Exception cls (Str_raises r)) s'
     \<Longrightarrow> handle_key lower call console k s = Propagates r s'"
  by (simp add: handle_key_def)

lemma handle_key_print_raises:
  "hotkeys (fst s) (lower k) = Some cb \<Longrightarrow> call cb s = Raise (Exception cls (Str e)) s'
     \<Longrightarrow> console (error_line (lower k) e) = Some r
     \<Longrightarrow> handle_key lower call console k s = Propagates r s'"
  by (simp add: handle_key_def)

text \<open>
  Claim C1, as the code has it. When the callback bound to a key raises an exception
  derived from \<^verbatim>\<open>Exception\<close>, and formatting that exception returns a string and the
  error line is printed, \<^verbatim>\<open>handle_key\<close> has caught the exception and reported it and
  returns \<^verbatim>\<open>False\<close>; nothing propagates, and the program state is the one the callback
  left. A later \<^verbatim>\<open>handle_key\<close> of a key whose callback returns is dispatched as usual
  and returns \<^verbatim>\<open>True\<close>.
\<close>

theorem handle_key_callback_failure:
  "hotkeys (fst s) (lower k) = Some cb \<Longrightarrow> call cb s = Raise (Exception cls (Str e)) s' \<Longrightarrow>
   console (error_line (lower k) e) = None \<Longrightarrow>
     handle_key lower call console k s = Returns False [error_line (lower k) e] s' \<and>
     (hotkeys (fst s') (lower k2) = Some cb2 \<longrightarrow> call cb2 s' = Return s2 \<longrightarrow>
        handle_key lower call console k2 s' = Returns True [] s2)"
  by (simp add: handle_key_bound_exception handle_key_bound_return)

theorem handle_key_callback_failure_witness:
  "handle_key lower_ascii
     (\<lambda>c s. if c = (0::nat) then Raise (Exception ''ValueError'' (Str ''boom'')) s
            else Return (fst s, snd s + c))
     (\<lambda>line. None)
     ''X'' (bind lower_ascii ''y'' ''Yes'' 1 (bind lower_ascii ''x'' ''Fail'' 0 InputHandler), 5::nat)
     = Returns False [error_line ''x'' ''boom'']
         (bind lower_ascii ''y'' ''Yes'' 1 (bind lower_ascii ''x'' ''Fail'' 0 InputHandler), 5) \<and>
   handle_key lower_ascii
     (\<lambda>c s. if c = (0::nat) then Raise (Exception ''ValueError'' (Str ''boom'')) s
            else Return (fst s, snd s + c))
     (\<lambda>line. None)
     ''Y'' (bind lower_ascii ''y'' ''Yes'' 1 (bind lower_ascii ''x'' ''Fail'' 0 InputHandler), 5::nat)
     = Returns True []
         (bind lower_ascii ''y'' ''Yes'' 1 (bind lower_ascii ''x'' ''Fail'' 0 InputHandler), 6)"
  using handle_key_callback_failure
    [of "(bind lower_ascii ''y'' ''Yes'' 1 (bind lower_ascii ''x'' ''Fail'' 0 InputHandler), 5::nat)"
        lower_ascii "''X''" 0
        "\<lambda>c s. if c = (0::nat) then Raise (Exception ''ValueError'' (Str ''boom'')) s
               else Return (fst s, snd s + c)"
        "''ValueError''" "''boom''"
        "(bind lower_ascii ''y'' ''Yes'' 1 (bind lower_ascii ''x'' ''Fail'' 0 InputHandler), 5::nat)"
        "\<lambda>line. None" "''Y''" 1
        "(bind lower_ascii ''y'' ''Yes'' 1 (bind lower_ascii ''x'' ''Fail'' 0 InputHandler), 6::nat)"]
  by (simp add: bind_def lower_ascii_def lower_ascii_char_def InputHandler_def)

text \<open>
  The \<^verbatim>\<open>except\<close> branch returns \<^verbatim>\<open>False\<close>, not \<^verbatim>\<open>True\<close>: the key \<^verbatim>\<open>x\<close> bound to a
  callback that raises \<^verbatim>\<open>ValueError("boom")\<close>. And not every exception derived from
  \<^verbatim>\<open>Exception\<close> stays inside: a callback that raises an exception whose \<^verbatim>\<open>__str__\<close> raises
  \<^verbatim>\<open>RuntimeError("no text")\<close> makes that \<^verbatim>\<open>RuntimeError\<close> leave \<^verbatim>\<open>handle_key\<close>.
\<close>

theorem handle_key_callback_failure_counterexample:
  "hotkeys (bind lower_ascii ''x'' ''Fail'' () InputHandler) ''x'' = Some () \<and>
   handle_key lower_ascii (\<lambda>c s. Raise (Exception ''ValueError'' (Str ''boom'')) s) (\<lambda>line. None)
       ''x'' (bind lower_ascii ''x'' ''Fail'' () InputHandler, ())
     = Returns False [error_line ''x'' ''boom''] (bind lower_ascii ''x'' ''Fail'' () InputHandler, ()) \<and>
   handle_key lower_ascii
       (\<lambda>c s. Raise (Exception ''Unprintable''
                       (Str_raises (Exception ''RuntimeError'' (Str ''no text'')))) s)
       (\<lambda>line. None)
       ''x'' (bind lower_ascii ''x'' ''Fail'' () InputHandler, ())
     = Propagates (Exception ''RuntimeError'' (Str ''no text''))
         (bind lower_ascii ''x'' ''Fail'' () InputHandler, ())"
  by (simp add: handle_key_def bind_def lower_ascii_def lower_ascii_char_def InputHandler_def Let_def)

text \<open>
  Claim C2. A case variant of a key is a string with the same lower-cased form. After
  \<^verbatim>\<open>bind(k, label, cb)\<close>, and any later binds of keys with other lower-cased forms,
  \<^verbatim>\<open>handle_key\<close> of any case variant of \<open>k\<close> calls \<open>cb\<close> once (the state after is the
  state that one call of \<open>cb\<close> returns) and returns \<^verbatim>\<open>True\<close>, when \<open>cb\<close> returns. A key
  whose lower-cased form has no binding gives \<^verbatim>\<open>False\<close>, prints nothing and leaves the
  handler and the rest of the state as they were, whatever the callbacks do. This holds
  whatever function \<^verbatim>\<open>str.lower\<close> is.
\<close>

theorem bind_then_handle_key:
  "(lower k' = lower k \<longrightarrow> (\<forall>b \<in> set later. lower (fst b) \<noteq> lower k) \<longrightarrow>
      call cb (bind_all lower later (bind lower k label cb ih), w) = Return s' \<longrightarrow>
      handle_key lower call console k' (bind_all lower later (bind lower k label cb ih), w)
        = Returns True [] s') \<and>
   (hotkeys ih (lower k) = None \<longrightarrow>
      handle_key lower call console k (ih, w) = Returns False [] (ih, w))"
proof -
  have "handle_key lower call console k' (bind_all lower later (bind lower k label cb ih), w)
          = Returns True [] s'"
    if "lower k' = lower k" "\<forall>b \<in> set later. lower (fst b) \<noteq> lower k"
       "call cb (bind_all lower later (bind lower k label cb ih), w) = Return s'"
  proof -
    have "hotkeys (bind_all lower later (bind lower k label cb ih)) (lower k') = Some cb"
      using that(1,2) by (simp add: hotkeys_bind_all_other hotkeys_bind)
    then show ?thesis
      using that(3) by (simp add: handle_key_bound_return)
  qed
  moreover have "handle_key lower call console k (ih, w) = Returns False [] (ih, w)"
    if "hotkeys ih (lower k) = None"
    using that by (simp add: handle_key_unbound)
  ultimately show ?thesis by blast
qed

theorem bind_then_handle_key_witness:
  "handle_key lower_ascii (\<lambda>c s. Return (fst s, snd s + c)) (\<lambda>line. None) ''R''
     (bind_all lower_ascii [(''Down'', ''Next'', 10)] (bind lower_ascii ''r'' ''Read'' 1 InputHandler),
      0::nat)
     = Returns True []
         (bind_all lower_ascii [(''Down'', ''Next'', 10)]
            (bind lower_ascii ''r'' ''Read'' 1 InputHandler), 1) \<and>
   handle_key lower_ascii (\<lambda>c s. Return (fst s, snd s + c)) (\<lambda>line. None) ''z'' (InputHandler, 0::nat)
     = Returns False [] (InputHandler, 0)"
  using bind_then_handle_key
    [of lower_ascii "''R''" "''r''" "[(''Down'', ''Next'', 10::nat)]"
        "\<lambda>c s. Return (fst s, snd s + c)" 1 "''Read''" InputHandler "0::nat"
        "(bind_all lower_ascii [(''Down'', ''Next'', 10)]
            (bind lower_ascii ''r'' ''Read'' 1 InputHandler), 1)"
        "\<lambda>line. None"]
     bind_then_handle_key
    [of lower_ascii "''z''" "''z''" "[]" "\<lambda>c s. Return (fst s, snd s + c)" 1 "''Read''"
        InputHandler "0::nat" _ "\<lambda>line. None"]
  by (simp add: bind_def lower_ascii_def lower_ascii_char_def InputHandler_def)

section \<open>Properties of KeyboardMapper\<close>

text \<open>
  The methods keep \<open>km_inv\<close>, and on a state with \<open>km_inv\<close> each of them changes the
  table of one preset name and no other.
\<close>

lemma assign_new_fields:
  "mappings (assign_new n d km) = (mappings km)(n \<mapsto> length (store km))"
  "store (assign_new n d km) = store km @ [d]"
  "current_preset (assign_new n d km) = current_preset km"
  by (simp_all add: assign_new_def new_dict_def)

lemma write_dict_fields:
  "mappings (write_dict r d km) = mappings km"
  "store (write_dict r d km) = (store km)[r := d]"
  "current_preset (write_dict r d km) = current_preset km"
  by (simp_all add: write_dict_def)

lemma km_inv_ref: "km_inv km \<Longrightarrow> mappings km p = Some r \<Longrightarrow> r < length (store km)"
  by (auto simp: km_inv_def)

lemma km_inv_inj: "km_inv km \<Longrightarrow> mappings km p = Some r \<Longrightarrow> mappings km q = Some r \<Longrightarrow> p = q"
  unfolding km_inv_def by blast

lemma km_inv_assign_new: "km_inv km \<Longrightarrow> km_inv (assign_new n d km)"
  unfolding km_inv_def assign_new_fields
  by (auto split: if_splits simp: less_Suc_eq) 

lemma km_inv_write_dict: "km_inv km \<Longrightarrow> km_inv (write_dict r d km)"
  by (simp add: km_inv_def write_dict_fields)

lemma preset_table_assign_new:
  "km_inv km \<Longrightarrow>
     preset_table (assign_new n d km) p = (if p = n then Some d else preset_table km p)"
proof (cases "p = n")
  case True
  then show ?thesis by (simp add: preset_table_def assign_new_fields)
next
  case False
  assume inv: "km_inv km"
  show ?thesis
  proof (cases "mappings km p")
    case None
    with False show ?thesis by (simp add: preset_table_def assign_new_fields)
  next
    case (Some r)
    then have "r < length (store km)" using inv by (rule km_inv_ref [rotated])
    with False Some show ?thesis by (simp add: preset_table_def assign_new_fields nth_append)
  qed
qed

lemma preset_table_write_dict:
  "km_inv km \<Longrightarrow> mappings km n = Some r \<Longrightarrow>
     preset_table (write_dict r d km) p = (if p = n then Some d else preset_table km p)"
proof -
  assume inv: "km_inv km" and n: "mappings km n = Some r"
  have r: "r < length (store km)" using inv n by (rule km_inv_ref)
  show ?thesis
  proof (cases "mappings km p")
    case None
    with n show ?thesis by (auto simp: preset_table_def write_dict_fields)
  next
    case (Some r')
    show ?thesis
    proof (cases "p = n")
      case True
      with n r show ?thesis by (simp add: preset_table_def write_dict_fields)
    next
      case False
      then have "r' \<noteq> r" using km_inv_inj [OF inv Some] n by auto
      with False Some show ?thesis by (simp add: preset_table_def write_dict_fields)
    qed
  qed
qed

lemma km_inv_empty: "km_inv \<lparr>mappings = Map.empty, store = [], current_preset = c\<rparr>"
  by (simp add: km_inv_def)

lemma km_inv_init_default_mappings: "km_inv km \<Longrightarrow> km_inv (init_default_mappings km)"
  by (simp add: init_default_mappings_def km_inv_assign_new)

lemma km_inv_KeyboardMapper: "km_inv (KeyboardMapper)"
  by (simp add: KeyboardMapper_def km_inv_init_default_mappings km_inv_empty)

lemma get_mappings_table:
  "get_mappings preset km = table_or_empty km (preset_or preset (current_preset km))"
  by (simp add: get_mappings_def table_or_empty_def preset_table_def split: option.splits)

lemma km_inv_create_preset: "km_inv km \<Longrightarrow> km_inv (create_preset n b km)"
  by (simp add: create_preset_def km_inv_assign_new split: option.splits)

lemma km_inv_map_key: "km_inv km \<Longrightarrow> km_inv (map_key lower k a pr km)"
  by (simp add: map_key_def Let_def km_inv_assign_new km_inv_write_dict split: option.splits)

lemma km_inv_unmap_key: "km_inv km \<Longrightarrow> km_inv (unmap_key lower k pr km)"
  by (simp add: unmap_key_def Let_def km_inv_write_dict split: option.splits)

lemma create_preset_assign:
  "create_preset n b km =
     assign_new n (case b of
                     Some b' \<Rightarrow> if b' \<noteq> [] then table_or_empty km b' else Map.empty
                   | None \<Rightarrow> Map.empty) km"
  by (auto simp: create_preset_def table_or_empty_def preset_table_def
           split: option.splits)

lemma preset_table_create_preset:
  "km_inv km \<Longrightarrow>
     preset_table (create_preset n b km) p =
       (if p = n
        then Some (case b of
                     Some b' \<Rightarrow> if b' \<noteq> [] then table_or_empty km b' else Map.empty
                   | None \<Rightarrow> Map.empty)
        else preset_table km p)"
  by (simp only: create_preset_assign preset_table_assign_new)

lemma preset_table_Some: "mappings km p = Some r \<Longrightarrow> preset_table km p = Some (store km ! r)"
  by (simp add: preset_table_def)

lemma preset_table_None: "mappings km p = None \<Longrightarrow> preset_table km p = None"
  by (simp add: preset_table_def)

lemma preset_table_map_key:
  "km_inv km \<Longrightarrow>
     preset_table (map_key lower k a pr km) p =
       (if p = preset_or pr (current_preset km)
        then Some ((table_or_empty km p)(lower k \<mapsto> a))
        else preset_table km p)"
proof -
  assume inv: "km_inv km"
  define P where "P = preset_or pr (current_preset km)"
  show ?thesis
  proof (cases "mappings km P")
    case None
    let ?km1 = "assign_new P Map.empty km"
    have inv1: "km_inv ?km1" using inv by (rule km_inv_assign_new)
    have m1: "mappings ?km1 P = Some (length (store km))"
      by (simp add: assign_new_fields)
    have s1: "store ?km1 ! length (store km) = Map.empty"
      by (simp add: assign_new_fields)
    have m: "map_key lower k a pr km = write_dict (length (store km)) (Map.empty(lower k \<mapsto> a)) ?km1"
      using None by (simp add: map_key_def Let_def P_def [symmetric] m1 s1 domIff)
    have "preset_table (map_key lower k a pr km) p
            = (if p = P then Some (Map.empty(lower k \<mapsto> a)) else preset_table ?km1 p)"
      unfolding m using inv1 m1 by (rule preset_table_write_dict)
    also have "\<dots> = (if p = P then Some (Map.empty(lower k \<mapsto> a)) else preset_table km p)"
      using inv by (simp add: preset_table_assign_new)
    finally show ?thesis
      using None by (simp add: P_def [symmetric] table_or_empty_def preset_table_None)
  next
    case (Some r)
    have m: "map_key lower k a pr km = write_dict r ((store km ! r)(lower k \<mapsto> a)) km"
      using Some by (simp add: map_key_def Let_def P_def [symmetric] domIff)
    have "preset_table (map_key lower k a pr km) p
            = (if p = P then Some ((store km ! r)(lower k \<mapsto> a)) else preset_table km p)"
      unfolding m using inv Some by (rule preset_table_write_dict)
    then show ?thesis
      using Some by (simp add: P_def [symmetric] table_or_empty_def preset_table_Some)
  qed
qed

lemma preset_table_unmap_key:
  "km_inv km \<Longrightarrow>
     preset_table (unmap_key lower k pr km) p =
       (if p = preset_or pr (current_preset km)
        then map_option (\<lambda>t. t(lower k := None)) (preset_table km p)
        else preset_table km p)"
proof -
  assume inv: "km_inv km"
  define P where "P = preset_or pr (current_preset km)"
  show ?thesis
  proof (cases "mappings km P")
    case None
    then show ?thesis
      by (simp add: unmap_key_def Let_def P_def [symmetric] preset_table_None)
  next
    case (Some r)
    show ?thesis
    proof (cases "lower k \<in> dom (store km ! r)")
      case True
      then have m: "unmap_key lower k pr km = write_dict r ((store km ! r)(lower k := None)) km"
        using Some by (simp add: unmap_key_def Let_def P_def [symmetric])
      have "preset_table (unmap_key lower k pr km) p
              = (if p = P then Some ((store km ! r)(lower k := None)) else preset_table km p)"
        unfolding m using inv Some by (rule preset_table_write_dict)
      then show ?thesis
        using Some by (simp add: P_def [symmetric] preset_table_Some)
    next
      case False
      then have m: "unmap_key lower k pr km = km"
        using Some by (simp add: unmap_key_def Let_def P_def [symmetric])
      have "(store km ! r)(lower k := None) = store km ! r"
        using False by (auto simp: domIff)
      then show ?thesis
        using Some by (simp add: m P_def [symmetric] preset_table_Some)
    qed
  qed
qed

lemma current_preset_map_key: "current_preset (map_key lower k a pr km) = current_preset km"
  by (simp add: map_key_def Let_def assign_new_fields write_dict_fields split: option.splits)

lemma current_preset_unmap_key: "current_preset (unmap_key lower k pr km) = current_preset km"
  by (simp add: unmap_key_def Let_def write_dict_fields split: option.splits)

lemma current_preset_create_preset: "current_preset (create_preset n b km) = current_preset km"
  by (simp add: create_preset_def assign_new_fields split: option.splits)

lemma km_inv_mutate: "km_inv km \<Longrightarrow> km_inv (mutate lower name m km)"
  by (cases m) (simp_all add: km_inv_map_key km_inv_unmap_key)

lemma preset_table_mutate_other:
  "km_inv km \<Longrightarrow> name \<noteq> [] \<Longrightarrow> p \<noteq> name \<Longrightarrow>
     preset_table (mutate lower name m km) p = preset_table km p"
  by (cases m) (simp_all add: preset_table_map_key preset_table_unmap_key preset_or_def)

lemma mutate_all_other:
  "km_inv km \<Longrightarrow> name \<noteq> [] \<Longrightarrow> p \<noteq> name \<Longrightarrow>
     km_inv (mutate_all lower name ms km) \<and> preset_table (mutate_all lower name ms km) p = preset_table km p"
proof (induction ms arbitrary: km)
  case Nil
  then show ?case by simp
next
  case (Cons m ms)
  have "km_inv (mutate lower name m km)"
    using Cons.prems(1) by (rule km_inv_mutate)
  then have "km_inv (mutate_all lower name ms (mutate lower name m km)) \<and>
             preset_table (mutate_all lower name ms (mutate lower name m km)) p
               = preset_table (mutate lower name m km) p"
    using Cons.prems(2,3) by (rule Cons.IH)
  then show ?case
    using Cons.prems by (simp add: preset_table_mutate_other)
qed

lemmas km_defs = KeyboardMapper_def init_default_mappings_def assign_new_def new_dict_def
  write_dict_def preset_or_def set_preset_def get_action_def map_key_def
  unmap_key_def get_mappings_def create_preset_def preset_table_def Let_def

lemma mappings_KeyboardMapper:
  "mappings (KeyboardMapper) =
     [''default'' \<mapsto> 0, ''screen_reader'' \<mapsto> 1, ''match'' \<mapsto> 2, ''tactics'' \<mapsto> 3, ''inbox'' \<mapsto> 4]"
  by (simp add: km_defs eval_nat_numeral)

lemma store_KeyboardMapper:
  "store (KeyboardMapper) =
     [map_of default_literal, map_of screen_reader_literal, map_of match_literal,
      map_of tactics_literal, map_of inbox_literal]"
  by (simp add: km_defs)

text \<open>
  Claim C8. After \<^verbatim>\<open>create_preset("x", "default")\<close> the preset \<^verbatim>\<open>x\<close> has the mappings of
  \<^verbatim>\<open>default\<close>, and whatever run of \<^verbatim>\<open>map_key\<close> and \<^verbatim>\<open>unmap_key\<close> calls on \<^verbatim>\<open>x\<close>
  follows, \<^verbatim>\<open>get_mappings("default")\<close> is what it was: the copy is a new object.
\<close>

theorem create_preset_copy_independent:
  "km_inv km \<Longrightarrow>
     get_mappings (Some ''x'') (create_preset ''x'' (Some ''default'') km)
       = get_mappings (Some ''default'') km \<and>
     get_mappings (Some ''default'')
         (mutate_all lower ''x'' ms (create_preset ''x'' (Some ''default'') km))
       = get_mappings (Some ''default'') km"
proof -
  assume inv: "km_inv km"
  let ?km' = "create_preset ''x'' (Some ''default'') km"
  have inv': "km_inv ?km'"
    using inv by (rule km_inv_create_preset)
  have x: "preset_table ?km' ''x'' = Some (table_or_empty km ''default'')"
    using inv by (simp add: preset_table_create_preset)
  have d: "preset_table ?km' ''default'' = preset_table km ''default''"
    using inv by (simp add: preset_table_create_preset)
  have "preset_table (mutate_all lower ''x'' ms ?km') ''default'' = preset_table ?km' ''default''"
    using mutate_all_other [OF inv', of "''x''" "''default''" lower ms] by simp
  with d have after: "table_or_empty (mutate_all lower ''x'' ms ?km') ''default''
                        = table_or_empty km ''default''"
    by (simp add: table_or_empty_def)
  have "get_mappings (Some ''x'') ?km' = get_mappings (Some ''default'') km"
    using x by (simp add: get_mappings_table preset_or_def table_or_empty_def)
  moreover have "get_mappings (Some ''default'') (mutate_all lower ''x'' ms ?km')
                   = get_mappings (Some ''default'') km"
    using after by (simp add: get_mappings_table preset_or_def)
  ultimately show ?thesis by simp
qed

theorem create_preset_copy_independent_witness:
  "km_inv (KeyboardMapper) \<and>
   get_mappings (Some ''x'') (create_preset ''x'' (Some ''default'') (KeyboardMapper))
     = get_mappings (Some ''default'') (KeyboardMapper) \<and>
   get_mappings (Some ''default'')
       (mutate_all lower_ascii ''x'' [MapKey ''Up'' ''jump'', UnmapKey ''down'']
          (create_preset ''x'' (Some ''default'') (KeyboardMapper)))
     = get_mappings (Some ''default'') (KeyboardMapper) \<and>
   get_mappings (Some ''default'') (KeyboardMapper) ''up'' = Some ''navigate_up'' \<and>
   get_mappings (Some ''x'')
       (mutate_all lower_ascii ''x'' [MapKey ''Up'' ''jump'', UnmapKey ''down'']
          (create_preset ''x'' (Some ''default'') (KeyboardMapper))) ''up''
     = Some ''jump''"
proof -
  have d: "get_mappings (Some ''default'') (KeyboardMapper) ''up'' = Some ''navigate_up''"
    by (simp add: km_defs default_literal_def)
  have x: "get_mappings (Some ''x'')
             (mutate_all lower_ascii ''x'' [MapKey ''Up'' ''jump'', UnmapKey ''down'']
                (create_preset ''x'' (Some ''default'') (KeyboardMapper))) ''up''
             = Some ''jump''"
    by (simp add: km_defs lower_ascii_def lower_ascii_char_def default_literal_def)
  show ?thesis
    using create_preset_copy_independent [OF km_inv_KeyboardMapper,
            of lower_ascii "[MapKey ''Up'' ''jump'', UnmapKey ''down'']"]
          km_inv_KeyboardMapper d x
    by simp
qed

text \<open>
  Claim C10. \<^verbatim>\<open>create_preset\<close> with a name that exists replaces that preset's whole table:
  by a copy of the base's table when a base is given, is not the empty string and exists,
  by the empty table otherwise. Nothing of the old table is kept (unless the base is the
  preset itself), no error is raised, and every other preset keeps its table.
\<close>

theorem create_preset_replaces_existing:
  "km_inv km \<Longrightarrow> name \<in> dom (mappings km) \<Longrightarrow>
     preset_table (create_preset name base_preset km) name
       = Some (case base_preset of
                 None \<Rightarrow> Map.empty
               | Some b \<Rightarrow> if b \<noteq> [] \<and> b \<in> dom (mappings km) then the (preset_table km b)
                           else Map.empty) \<and>
     (p \<noteq> name \<longrightarrow> preset_table (create_preset name base_preset km) p = preset_table km p) \<and>
     km_inv (create_preset name base_preset km)"
proof -
  assume inv: "km_inv km"
  have "(case base_preset of
           Some b' \<Rightarrow> if b' \<noteq> [] then table_or_empty km b' else Map.empty
         | None \<Rightarrow> Map.empty)
        = (case base_preset of
             None \<Rightarrow> Map.empty
           | Some b \<Rightarrow> if b \<noteq> [] \<and> b \<in> dom (mappings km) then the (preset_table km b)
                       else Map.empty)"
    by (auto simp: table_or_empty_def preset_table_def domIff split: option.splits)
  then show ?thesis
    using inv by (simp add: preset_table_create_preset km_inv_create_preset)
qed

theorem create_preset_replaces_existing_witness:
  "''match'' \<in> dom (mappings (KeyboardMapper)) \<and>
   preset_table (KeyboardMapper) ''match'' = Some (map_of match_literal) \<and>
   preset_table (create_preset ''match'' (Some ''inbox'') (KeyboardMapper)) ''match''
     = Some (map_of inbox_literal) \<and>
   preset_table (create_preset ''match'' None (KeyboardMapper)) ''match'' = Some Map.empty \<and>
   preset_table (create_preset ''match'' None (KeyboardMapper)) ''inbox''
     = Some (map_of inbox_literal)"
  using create_preset_replaces_existing
          [OF km_inv_KeyboardMapper, of "''match''" "Some ''inbox''" "''inbox''"]
        create_preset_replaces_existing
          [OF km_inv_KeyboardMapper, of "''match''" None "''inbox''"]
  by (simp add: mappings_KeyboardMapper store_KeyboardMapper preset_table_def)









text \<open>Whatever the loaded value, the loop and \<^verbatim>\<open>load_config\<close> keep \<open>km_inv\<close>.\<close>

lemma km_inv_merge_loaded:
  "km_inv km \<Longrightarrow>
     (case merge_loaded presets km of
        Merged km' \<Rightarrow> km_inv km'
      | Merge_raises r km' \<Rightarrow> km_inv km'
      | Merge_beyond_model \<Rightarrow> True)"
proof (induction presets arbitrary: km)
  case Nil
  then show ?case by simp
next
  case (Cons pt rest)
  obtain preset t where pt: "pt = (preset, t)" by (cases pt)
  show ?case
  proof (cases "mappings km preset")
    case None
    show ?thesis
    proof (cases "as_dict t")
      case no: None
      then show ?thesis using None pt by simp
    next
      case (Some d)
      have "km_inv (assign_new preset d km)"
        using Cons.prems by (rule km_inv_assign_new)
      then show ?thesis
        using Cons.IH [of "assign_new preset d km"] None Some pt by simp
    qed
  next
    case (Some r)
    show ?thesis
    proof (cases "update (store km ! r) t")
      case (Updated d)
      have "km_inv (write_dict r d km)"
        using Cons.prems by (rule km_inv_write_dict)
      then show ?thesis
        using Cons.IH [of "write_dict r d km"] Some Updated pt by simp
    next
      case (Update_raises e)
      then show ?thesis using Some pt Cons.prems by simp
    next
      case Update_beyond_model
      then show ?thesis using Some pt by simp
    qed
  qed
qed

lemma km_inv_try_body:
  "km_inv km \<Longrightarrow>
     (case try_body console filepath src km of
        Returned ls km' \<Rightarrow> km_inv km'
      | Raised r ls km' \<Rightarrow> km_inv km'
      | Beyond_model \<Rightarrow> True)"
proof (cases src)
  case (Raises r)
  assume "km_inv km"
  then show ?thesis using Raises by (simp add: try_body_def)
next
  case (Loads v)
  assume inv: "km_inv km"
  show ?thesis
  proof (cases v)
    case (JObject presets)
    show ?thesis
      using km_inv_merge_loaded [OF inv, of presets] Loads JObject
      by (auto simp: try_body_def print_line_def split: merge_result.splits option.splits)
  qed (use inv Loads in \<open>simp_all add: try_body_def\<close>)
qed

lemma km_inv_load_config:
  "km_inv km \<Longrightarrow>
     (case load_config console filepath src km of
        Returned ls km' \<Rightarrow> km_inv km'
      | Raised r ls km' \<Rightarrow> km_inv km'
      | Beyond_model \<Rightarrow> True)"
  using km_inv_try_body [of km console filepath src]
  by (auto simp: load_config_def print_line_def
           split: load_result.splits raised.splits str_outcome.splits option.splits if_splits)

lemma km_inv_KeyboardMapper_from:
  "(case KeyboardMapper_from console config_file src of
      Returned ls km' \<Rightarrow> km_inv km'
    | Raised r ls km' \<Rightarrow> km_inv km'
    | Beyond_model \<Rightarrow> True)"
  unfolding KeyboardMapper_from_def
  by (rule km_inv_load_config) (rule km_inv_KeyboardMapper)

lemma km_inv_set_preset: "km_inv km \<Longrightarrow> km_inv (snd (set_preset n km))"
  by (simp add: set_preset_def km_inv_def)





end
